theory Spec2Isabelle
  imports Main "HOL-Library.Word"
begin

unbundle bit_operations_syntax

section \<open>rdctl connection settings (src/go/rdctl/pkg/config/config.go)\<close>

subsection \<open>Data\<close>

text \<open>
  The JSON shape of the config file. Go's \<^verbatim>\<open>CLIConfig\<close> has the fields
  \<^verbatim>\<open>User\<close>, \<^verbatim>\<open>Password\<close> and \<^verbatim>\<open>Port\<close>; they carry the prefix \<open>file\<close> here
  because \<^verbatim>\<open>ConnectionInfo\<close> uses the same three names. \<^verbatim>\<open>Port\<close> is a Go
  \<^verbatim>\<open>int\<close>; no arithmetic is done on it, so it is an integer.
\<close>

record CLIConfig =
  fileUser :: string
  filePassword :: string
  filePort :: int

record ConnectionInfo =
  User :: string
  Password :: string
  Host :: string
  Port :: string

text \<open>The package-level variables.\<close>

record globals =
  connectionSettings :: ConnectionInfo
  configPath :: string
  DefaultConfigPath :: string

subsection \<open>The world outside the package\<close>

text \<open>
  \<^verbatim>\<open>os.ReadFile\<close> either returns the bytes of the file or fails; every error it
  returns is an \<^verbatim>\<open>*os.PathError\<close> holding the operation, the name it was called
  with and the system error. What lies at a path is a parameter of the model.
\<close>

datatype errno = ENOENT | EACCES | EISDIR | ENOTDIR | ELOOP | EIO

record PathError =
  Op :: string
  Path :: string
  Err :: errno

datatype read_outcome = Failure string errno | Contents string

definition os_ReadFile :: "(string \<Rightarrow> read_outcome) \<Rightarrow> string \<Rightarrow> PathError + string" where
  "os_ReadFile files name =
     (case files name of
        Failure op e \<Rightarrow> Inl \<lparr>Op = op, Path = name, Err = e\<rparr>
      | Contents bytes \<Rightarrow> Inr bytes)"

text \<open>
  \<^verbatim>\<open>json.Unmarshal\<close> into a zero \<^verbatim>\<open>CLIConfig\<close> is library code as well: a
  parameter that either fails or yields the settings (a key the text lacks leaves the
  zero value of its field).
\<close>

datatype json_error = SyntaxError string | UnmarshalTypeError string

record world =
  files :: "string \<Rightarrow> read_outcome"
  json_Unmarshal :: "string \<Rightarrow> json_error + CLIConfig"

text \<open>
  The errors \<^verbatim>\<open>GetConnectionInfo\<close> can hand out: the \<^verbatim>\<open>*PathError\<close> of the read,
  unwrapped, and \<^verbatim>\<open>fmt.Errorf("error in config file %q: %w", configPath, err)\<close>.
  \<^verbatim>\<open>ErrMainProcessNotRunning\<close> is the package's sentinel (line 60).
\<close>

datatype error =
    ErrMainProcessNotRunning
  | ReadFileError PathError
  | ErrorInConfigFile string json_error

subsection \<open>\<^verbatim>\<open>strconv.Itoa\<close>\<close>

definition digit :: "nat \<Rightarrow> char" where
  "digit d = ''0123456789'' ! d"

fun formatNat :: "nat \<Rightarrow> string" where
  "formatNat n = (if n < 10 then [digit n] else formatNat (n div 10) @ [digit (n mod 10)])"

definition Itoa :: "int \<Rightarrow> string" where
  "Itoa i = (if i < 0 then CHR ''-'' # formatNat (nat (- i)) else formatNat (nat i))"

subsection \<open>The functions\<close>

definition insufficientConnectionInfo :: "globals \<Rightarrow> bool" where
  "insufficientConnectionInfo g =
     (Port (connectionSettings g) = '''' \<or> User (connectionSettings g) = ''''
      \<or> Password (connectionSettings g) = '''')"

text \<open>
  \<^verbatim>\<open>finishConnectionSettings\<close> returns \<^verbatim>\<open>(bool, error)\<close> and writes the globals;
  the model returns the pair and the globals after the call.
\<close>

definition setConfigPath :: "globals \<Rightarrow> globals" where
  "setConfigPath g = (if configPath g = '''' then g\<lparr>configPath := DefaultConfigPath g\<rparr> else g)"

definition setHost :: "globals \<Rightarrow> globals" where
  "setHost g =
     (if Host (connectionSettings g) = ''''
      then g\<lparr>connectionSettings := (connectionSettings g)\<lparr>Host := ''127.0.0.1''\<rparr>\<rparr>
      else g)"

definition mergeSettings :: "CLIConfig \<Rightarrow> ConnectionInfo \<Rightarrow> ConnectionInfo" where
  "mergeSettings settings c0 =
     (let c1 = (if User c0 = '''' then c0\<lparr>User := fileUser settings\<rparr> else c0);
          c2 = (if Password c1 = '''' then c1\<lparr>Password := filePassword settings\<rparr> else c1);
          c3 = (if Port c2 = '''' then c2\<lparr>Port := Itoa (filePort settings)\<rparr> else c2)
      in c3)"

definition finishConnectionSettings :: "world \<Rightarrow> globals \<Rightarrow> (bool \<times> error option) \<times> globals" where
  "finishConnectionSettings w g0 =
     (let g = setHost (setConfigPath g0) in
      case os_ReadFile (files w) (configPath g) of
        Inl err \<Rightarrow> ((configPath g \<noteq> DefaultConfigPath g, Some (ReadFileError err)), g)
      | Inr content \<Rightarrow>
          (case json_Unmarshal w content of
             Inl err \<Rightarrow>
               ((configPath g \<noteq> DefaultConfigPath g,
                 Some (ErrorInConfigFile (configPath g) err)), g)
           | Inr settings \<Rightarrow>
               ((False, None),
                g\<lparr>connectionSettings := mergeSettings settings (connectionSettings g)\<rparr>)))"

text \<open>
  \<^verbatim>\<open>GetConnectionInfo\<close> returns \<^verbatim>\<open>(nil, err)\<close> or \<^verbatim>\<open>(&connectionSettings, nil)\<close>:
  the error, or the value of the global after the call.
\<close>

definition GetConnectionInfo :: "world \<Rightarrow> globals \<Rightarrow> (error + ConnectionInfo) \<times> globals" where
  "GetConnectionInfo w g0 =
     (case finishConnectionSettings w g0 of
        ((isImmediateError, err), g) \<Rightarrow>
          (case err of
             Some e \<Rightarrow>
               if isImmediateError \<or> insufficientConnectionInfo g then (Inl e, g)
               else (Inr (connectionSettings g), g)
           | None \<Rightarrow> (Inr (connectionSettings g), g)))"

text \<open>
  The globals as \<^verbatim>\<open>DefineGlobalFlags\<close> and the flag parser leave them: the four
  overrides in \<^verbatim>\<open>connectionSettings\<close>, \<^verbatim>\<open>--config-path\<close> (empty when not given)
  and the default path.
\<close>

definition flags :: "ConnectionInfo \<Rightarrow> string \<Rightarrow> string \<Rightarrow> globals" where
  "flags overrides path dflt =
     \<lparr>connectionSettings = overrides, configPath = path, DefaultConfigPath = dflt\<rparr>"

definition noOverrides :: ConnectionInfo where
  "noOverrides = \<lparr>User = '''', Password = '''', Host = '''', Port = ''''\<rparr>"

text \<open>The path that is read: \<^verbatim>\<open>--config-path\<close>, or the default when it is empty.\<close>

definition effectivePath :: "string \<Rightarrow> string \<Rightarrow> string" where
  "effectivePath path dflt = (if path = '''' then dflt else path)"

subsection \<open>\<^verbatim>\<open>isWSLDistro\<close>\<close>

text \<open>
  \<^verbatim>\<open>os.Lstat\<close> returns \<^verbatim>\<open>(FileInfo, error)\<close>, each of them possibly nil.
  \<^verbatim>\<open>FileMode\<close> is a \<^verbatim>\<open>uint32\<close> and \<^verbatim>\<open>ModeSymlink\<close> its bit 27.
  \<^verbatim>\<open>os.IsNotExist\<close> holds of the errors whose cause is \<^verbatim>\<open>ENOENT\<close>, and of no nil
  error. Calling \<^verbatim>\<open>Mode()\<close> on a nil \<^verbatim>\<open>FileInfo\<close> panics.
\<close>

record FileInfo =
  Mode :: "32 word"

definition ModeSymlink :: "32 word" where
  "ModeSymlink = push_bit 27 1"

datatype panic = NilPointerDereference

definition os_IsNotExist :: "errno option \<Rightarrow> bool" where
  "os_IsNotExist err = (err = Some ENOENT)"

definition isWSLDistro :: "(string \<Rightarrow> FileInfo option \<times> errno option) \<Rightarrow> panic + bool" where
  "isWSLDistro os_Lstat =
     (case os_Lstat ''/bin/wslpath'' of
        (fi, err) \<Rightarrow>
          if os_IsNotExist err then Inr False
          else (case fi of
                  None \<Rightarrow> Inl NilPointerDereference
                | Some i \<Rightarrow> Inr (Mode i AND ModeSymlink = ModeSymlink)))"

section \<open>Development mode (package utils)\<close>

text \<open>
  \<^verbatim>\<open>rdctlPath\<close> is what \<^verbatim>\<open>filepath.EvalSymlinks\<close> returns for the absolute path
  of the executable: a clean absolute path, modelled as the list of its components below
  the root. On such a path \<^verbatim>\<open>filepath.Dir\<close> drops the last component,
  \<^verbatim>\<open>filepath.Base\<close> is the last component, and only the root (the empty list)
  ends in the separator.
\<close>

type_synonym path = "string list"

definition Dir :: "path \<Rightarrow> path" where
  "Dir p = butlast p"

definition Base :: "path \<Rightarrow> string" where
  "Base p = (if p = [] then ''/'' else last p)"

definition isRoot :: "path \<Rightarrow> bool" where
  "isRoot p = (p = [])"

record DirEntry =
  Name :: string
  IsDir :: bool

record system =
  LookupEnv :: "string \<Rightarrow> string option"
  Executable :: "errno + path"
  EvalSymlinks :: "path \<Rightarrow> errno + path"
  ReadDir :: "path \<Rightarrow> errno + DirEntry list"

datatype dev_error =
    FailedExecutable errno
  | FailedResolve path errno
  | FailedReadDir path errno

text \<open>The inner loop over the entries of a directory.\<close>

primrec hasGitDir :: "DirEntry list \<Rightarrow> bool" where
  "hasGitDir [] = False"
| "hasGitDir (dirEntry # rest) =
     (if Name dirEntry = ''.git'' \<and> IsDir dirEntry then True else hasGitDir rest)"

text \<open>
  The outer loop, from \<^verbatim>\<open>parentPath\<close>. It returns the result and what it stores in
  \<^verbatim>\<open>devMode\<close> (nothing on an error, and nothing at the root).
\<close>

function ancestorWalk :: "system \<Rightarrow> path \<Rightarrow> (dev_error + bool) \<times> bool option" where
  "ancestorWalk s parentPath =
     (if isRoot (Dir parentPath) then (Inr False, None)
      else if Base (Dir parentPath) = ''dist'' then (Inr False, Some False)
      else (case ReadDir s (Dir parentPath) of
              Inl err \<Rightarrow> (Inl (FailedReadDir (Dir parentPath) err), None)
            | Inr dirEntries \<Rightarrow>
                if hasGitDir dirEntries then (Inr True, Some True)
                else ancestorWalk s (Dir parentPath)))"
  by pat_completeness auto
termination
proof (relation "measure (\<lambda>(s, p). length p)")
  fix s :: system and parentPath :: path
  assume "\<not> isRoot (Dir parentPath)"
  then show "((s, Dir parentPath), (s, parentPath)) \<in> measure (\<lambda>(s, p). length p)"
    by (cases parentPath) (auto simp: Dir_def isRoot_def)
qed simp

text \<open>\<^verbatim>\<open>DevMode\<close>, with the memo \<^verbatim>\<open>devMode\<close> passed in and returned.\<close>

definition DevMode :: "system \<Rightarrow> bool option \<Rightarrow> (dev_error + bool) \<times> bool option" where
  "DevMode s devMode =
     (case devMode of
        Some b \<Rightarrow> (Inr b, devMode)
      | None \<Rightarrow>
          if LookupEnv s ''NODE_ENV'' = Some ''development'' then (Inr True, Some True)
          else (case Executable s of
                  Inl err \<Rightarrow> (Inl (FailedExecutable err), None)
                | Inr rdctlSymlinkPath \<Rightarrow>
                    (case EvalSymlinks s rdctlSymlinkPath of
                       Inl err \<Rightarrow> (Inl (FailedResolve rdctlSymlinkPath err), None)
                     | Inr rdctlPath \<Rightarrow> ancestorWalk s rdctlPath)))"

text \<open>
  The directories the walk can visit: the proper ancestors of a path below the root,
  nearest first.
\<close>

function ancestors :: "path \<Rightarrow> path list" where
  "ancestors p = (if isRoot (Dir p) then [] else Dir p # ancestors (Dir p))"
  by pat_completeness auto
termination
proof (relation "measure length")
  fix p :: path
  assume "\<not> isRoot (Dir p)"
  then show "(Dir p, p) \<in> measure length"
    by (cases p) (auto simp: Dir_def isRoot_def)
qed simp

text \<open>
  An ancestor ends the walk when it is named \<^verbatim>\<open>dist\<close>, when it cannot be listed, or
  when its listing has a directory \<^verbatim>\<open>.git\<close>; the verdict there is taken in that order.
\<close>

definition endsWalk :: "system \<Rightarrow> path \<Rightarrow> bool" where
  "endsWalk s a =
     (Base a = ''dist'' \<or>
      (case ReadDir s a of Inl err \<Rightarrow> True | Inr dirEntries \<Rightarrow> hasGitDir dirEntries))"

definition verdictAt :: "system \<Rightarrow> path \<Rightarrow> dev_error + bool" where
  "verdictAt s a =
     (if Base a = ''dist'' then Inr False
      else (case ReadDir s a of
              Inl err \<Rightarrow> Inl (FailedReadDir a err)
            | Inr dirEntries \<Rightarrow> Inr True))"

text \<open>What the walk stores in \<^verbatim>\<open>devMode\<close> at the ancestor that ends it.\<close>

definition storedAt :: "system \<Rightarrow> path \<Rightarrow> bool option" where
  "storedAt s a =
     (if Base a = ''dist'' then Some False
      else (case ReadDir s a of
              Inl err \<Rightarrow> None
            | Inr dirEntries \<Rightarrow> Some True))"

section \<open>Application paths (the TypeScript module of paths)\<close>

subsection \<open>Values and objects\<close>

text \<open>
  The fields of the interface \<^verbatim>\<open>Paths\<close>, which the rest of the application reads,
  and their property names.
\<close>

datatype field =
    appHome | altAppHome | config | logs | cache | resources | lima | integration
  | oldIntegration | deploymentProfileSystem | deploymentProfileUser | extensionRoot
  | wslDistro | wslDistroData

fun fieldName :: "field \<Rightarrow> string" where
  "fieldName appHome = ''appHome''"
| "fieldName altAppHome = ''altAppHome''"
| "fieldName config = ''config''"
| "fieldName logs = ''logs''"
| "fieldName cache = ''cache''"
| "fieldName resources = ''resources''"
| "fieldName lima = ''lima''"
| "fieldName integration = ''integration''"
| "fieldName oldIntegration = ''oldIntegration''"
| "fieldName deploymentProfileSystem = ''deploymentProfileSystem''"
| "fieldName deploymentProfileUser = ''deploymentProfileUser''"
| "fieldName extensionRoot = ''extensionRoot''"
| "fieldName wslDistro = ''wslDistro''"
| "fieldName wslDistroData = ''wslDistroData''"

text \<open>
  The values \<^verbatim>\<open>JSON.parse\<close> builds. Nothing here looks inside a number. An object is
  the list of its own properties, in the order of its keys.
\<close>

typedecl js_number

datatype js_value =
    JNull
  | JBool bool
  | JNumber js_number
  | JString string
  | JArray "js_value list"
  | JObject "(string \<times> js_value) list"

text \<open>
  \<^verbatim>\<open>pathsData\<close> is declared as \<^verbatim>\<open>Partial<Paths>\<close>, but it holds what
  \<^verbatim>\<open>JSON.parse(result.stdout)\<close> returned, unchecked, and the type is gone at run
  time: any key and any value can be in it. The model has the own enumerable properties
  that \<^verbatim>\<open>Object.assign\<close> copies from it, in the order in which it copies them.
\<close>

type_synonym pathsData = "(string \<times> js_value) list"

datatype js_error = Error string | TypeError string

text \<open>
  The two classes. An instance has its own data properties and a prototype: that of its
  class, until something puts a JSON value in its place. The prototype of a class holds
  the getters of the class, which have no setter and throw; behind it, and behind every
  JSON object and array, stands \<^verbatim>\<open>Object.prototype\<close>, whose only accessor is
  \<^verbatim>\<open>__proto__\<close>.
\<close>

datatype variant = Unix | Windows

datatype prototype = ClassPrototype variant | Replaced js_value

record Paths =
  own :: "string \<Rightarrow> js_value option"
  proto :: prototype

definition UnixPaths_fields :: "(string \<times> js_value) list" where
  "UnixPaths_fields =
     [(''appHome'', JString ''''), (''altAppHome'', JString ''''), (''config'', JString ''''),
      (''logs'', JString ''''), (''cache'', JString ''''), (''resources'', JString ''''),
      (''lima'', JString ''''), (''oldIntegration'', JString ''''),
      (''integration'', JString ''''), (''deploymentProfileSystem'', JString ''''),
      (''deploymentProfileUser'', JString ''''), (''extensionRoot'', JString '''')]"

definition UnixPaths_getters :: "(string \<times> string) list" where
  "UnixPaths_getters =
     [(''wslDistro'', ''wslDistro not available for Unix''),
      (''wslDistroData'', ''wslDistroData not available for Unix'')]"

definition WindowsPaths_fields :: "(string \<times> js_value) list" where
  "WindowsPaths_fields =
     [(''appHome'', JString ''''), (''altAppHome'', JString ''''), (''config'', JString ''''),
      (''logs'', JString ''''), (''cache'', JString ''''), (''resources'', JString ''''),
      (''extensionRoot'', JString ''''), (''wslDistro'', JString ''''),
      (''wslDistroData'', JString '''')]"

definition WindowsPaths_getters :: "(string \<times> string) list" where
  "WindowsPaths_getters =
     [(''lima'', ''lima not available for Windows''),
      (''oldIntegration'', ''Internal error: oldIntegration path not available for Windows''),
      (''integration'', ''Internal error: integration path not available for Windows''),
      (''deploymentProfileSystem'',
         ''Internal error: Windows profiles will be read from Registry''),
      (''deploymentProfileUser'',
         ''Internal error: Windows profiles will be read from Registry'')]"

fun classFields :: "variant \<Rightarrow> (string \<times> js_value) list" where
  "classFields Unix = UnixPaths_fields"
| "classFields Windows = WindowsPaths_fields"

fun classGetters :: "variant \<Rightarrow> (string \<times> string) list" where
  "classGetters Unix = UnixPaths_getters"
| "classGetters Windows = WindowsPaths_getters"

subsection \<open>\<^verbatim>\<open>Object.assign(this, pathsData)\<close>\<close>

text \<open>
  The setter of \<^verbatim>\<open>__proto__\<close> replaces the prototype when it is given an object (an
  array is one) or null, and does nothing for any other value.
\<close>

fun isObjectOrNull :: "js_value \<Rightarrow> bool" where
  "isObjectOrNull JNull = True"
| "isObjectOrNull (JArray xs) = True"
| "isObjectOrNull (JObject ps) = True"
| "isObjectOrNull v = False"

definition setPrototype :: "Paths \<Rightarrow> js_value \<Rightarrow> Paths" where
  "setPrototype this v = (if isObjectOrNull v then this\<lparr>proto := Replaced v\<rparr> else this)"

definition defineOwn :: "Paths \<Rightarrow> string \<Rightarrow> js_value \<Rightarrow> Paths" where
  "defineOwn this k v = this\<lparr>own := (own this)(k \<mapsto> v)\<rparr>"

text \<open>The own property of a JSON value that stands as a prototype, by its key.\<close>

fun ownOf :: "js_value \<Rightarrow> string \<Rightarrow> js_value option" where
  "ownOf (JObject ps) k = map_of ps k"
| "ownOf v k = None"

text \<open>
  \<^verbatim>\<open>this[k] = v\<close>, as \<^verbatim>\<open>Object.assign\<close> does it. An own property is
  overwritten. Otherwise the prototype chain decides: a getter of the class without a
  setter makes the assignment throw a TypeError; the accessor \<^verbatim>\<open>__proto__\<close> of
  \<^verbatim>\<open>Object.prototype\<close>, when the chain reaches it and no object before it has a
  property of that name, runs its setter; in every other case the assignment defines an
  own property.
\<close>

definition assignProperty :: "Paths \<Rightarrow> string \<Rightarrow> js_value \<Rightarrow> js_error + Paths" where
  "assignProperty this k v =
     (case own this k of
        Some old \<Rightarrow> Inr (defineOwn this k v)
      | None \<Rightarrow>
          (case proto this of
             ClassPrototype c \<Rightarrow>
               (case map_of (classGetters c) k of
                  Some msg \<Rightarrow> Inl (TypeError k)
                | None \<Rightarrow>
                    if k = ''__proto__'' then Inr (setPrototype this v)
                    else Inr (defineOwn this k v))
           | Replaced p \<Rightarrow>
               if k = ''__proto__'' \<and> p \<noteq> JNull \<and> ownOf p k = None
               then Inr (setPrototype this v)
               else Inr (defineOwn this k v)))"

fun Object_assign :: "Paths \<Rightarrow> pathsData \<Rightarrow> js_error + Paths" where
  "Object_assign this [] = Inr this"
| "Object_assign this ((k, v) # rest) =
     (case assignProperty this k v of
        Inl e \<Rightarrow> Inl e
      | Inr this' \<Rightarrow> Object_assign this' rest)"

text \<open>The constructors: the field initialisers, then \<^verbatim>\<open>Object.assign\<close>.\<close>

definition new_Paths :: "variant \<Rightarrow> pathsData \<Rightarrow> js_error + Paths" where
  "new_Paths c d =
     Object_assign \<lparr>own = map_of (classFields c), proto = ClassPrototype c\<rparr> d"

definition new_UnixPaths :: "pathsData \<Rightarrow> js_error + Paths" where
  "new_UnixPaths d = new_Paths Unix d"

definition new_WindowsPaths :: "pathsData \<Rightarrow> js_error + Paths" where
  "new_WindowsPaths d = new_Paths Windows d"

text \<open>
  Reading a field of the interface from an object (\<open>None\<close> is \<^verbatim>\<open>undefined\<close>): the
  own property; else the getter of the class, which throws; else the property of the
  JSON object that is the prototype. \<^verbatim>\<open>Object.prototype\<close>, arrays and
  \<^verbatim>\<open>Array.prototype\<close> have no property with the name of a field.
\<close>

definition read_field :: "Paths \<Rightarrow> field \<Rightarrow> js_error + js_value option" where
  "read_field this f =
     (case own this (fieldName f) of
        Some v \<Rightarrow> Inr (Some v)
      | None \<Rightarrow>
          (case proto this of
             ClassPrototype c \<Rightarrow>
               (case map_of (classGetters c) (fieldName f) of
                  Some msg \<Rightarrow> Inl (Error msg)
                | None \<Rightarrow> Inr None)
           | Replaced p \<Rightarrow> Inr (ownOf p (fieldName f))))"

subsection \<open>\<^verbatim>\<open>getPaths\<close>\<close>

text \<open>
  The process: its platform and working directory, the outcome of
  \<^verbatim>\<open>spawnSync(getRdctlPath(), ['paths'])\<close> (\<open>None\<close> when the call or
  \<^verbatim>\<open>getRdctlPath\<close> throws), \<^verbatim>\<open>JSON.parse\<close> (\<open>None\<close> when it throws, else the
  properties of the value that \<^verbatim>\<open>Object.assign\<close> will copy) and \<^verbatim>\<open>path.join\<close>.
\<close>

record spawn_result =
  status :: "int option"
  stdout :: string

record process =
  platform :: string
  cwd :: string
  spawnSync_paths :: "spawn_result option"
  JSON_parse :: "string \<Rightarrow> pathsData option"
  path_join :: "string \<Rightarrow> string \<Rightarrow> string"

definition defaultPathsData :: "process \<Rightarrow> pathsData" where
  "defaultPathsData pr =
     [(''resources'', JString (path_join pr (cwd pr) ''resources'')),
      (''logs'', JString (path_join pr (cwd pr) ''script_logs''))]"

definition loadPathsData :: "process \<Rightarrow> pathsData" where
  "loadPathsData pr =
     (case spawnSync_paths pr of
        None \<Rightarrow> defaultPathsData pr
      | Some result \<Rightarrow>
          if status result \<noteq> Some 0 then defaultPathsData pr
          else (case JSON_parse pr (stdout result) of
                  None \<Rightarrow> defaultPathsData pr
                | Some d \<Rightarrow> d))"

definition unsupported :: "string \<Rightarrow> js_error" where
  "unsupported p = Error (''Platform '' @ [CHR 0x22] @ p @ [CHR 0x22] @ '' is not supported.'')"

definition getPaths :: "process \<Rightarrow> js_error + Paths" where
  "getPaths pr =
     (if platform pr = ''darwin'' then new_UnixPaths (loadPathsData pr)
      else if platform pr = ''linux'' then new_UnixPaths (loadPathsData pr)
      else if platform pr = ''win32'' then new_WindowsPaths (loadPathsData pr)
      else Inl (unsupported (platform pr)))"

subsection \<open>What the claims speak of\<close>

text \<open>
  \<^verbatim>\<open>pathsData\<close> leaves the prototype alone when it has no key \<^verbatim>\<open>__proto__\<close>
  with an object, an array or null.
\<close>

definition keepsPrototype :: "pathsData \<Rightarrow> bool" where
  "keepsPrototype d = list_all (\<lambda>kv. fst kv \<noteq> ''__proto__'' \<or> \<not> isObjectOrNull (snd kv)) d"

text \<open>The first key of \<^verbatim>\<open>pathsData\<close> that the class defines with a getter alone.\<close>

definition firstGetterKey :: "variant \<Rightarrow> pathsData \<Rightarrow> string option" where
  "firstGetterKey c d =
     map_option fst (find (\<lambda>kv. map_of (classGetters c) (fst kv) \<noteq> None) d)"

text \<open>
  The properties after the assignment, when the prototype stays: each key of
  \<^verbatim>\<open>pathsData\<close> but \<^verbatim>\<open>__proto__\<close>, the later value over the earlier, over the
  properties before.
\<close>

primrec overlay :: "pathsData \<Rightarrow> (string \<Rightarrow> js_value option) \<Rightarrow> (string \<Rightarrow> js_value option)" where
  "overlay [] m = m"
| "overlay (kv # rest) m =
     overlay rest (if fst kv = ''__proto__'' then m else m(fst kv \<mapsto> snd kv))"

section \<open>Concrete scenarios\<close>

subsection \<open>Config files\<close>

definition example_json :: string where
  \<open>example_json = ''{"User":"admin","Password":"secret","Port":6107}''\<close>

definition portless_json :: string where
  \<open>portless_json = ''{"User":"admin","Password":"secret"}''\<close>

definition default_path :: string where
  "default_path = ''/home/u/.local/share/rancher-desktop/rd-engine.json''"

definition no_such_file :: "string \<Rightarrow> read_outcome" where
  "no_such_file name = Failure ''open'' ENOENT"

definition syntax_error :: "json_error + CLIConfig" where
  "syntax_error = Inl (SyntaxError ''invalid character'')"

text \<open>The example of the specification at the default path.\<close>

definition example_world :: world where
  "example_world =
     \<lparr>files = (\<lambda>name. if name = default_path then Contents example_json else no_such_file name),
      json_Unmarshal =
        (\<lambda>bytes. if bytes = example_json
           then Inr \<lparr>fileUser = ''admin'', filePassword = ''secret'', filePort = 6107\<rparr>
           else syntax_error)\<rparr>"

text \<open>A config file without the key \<^verbatim>\<open>Port\<close>: the field keeps Go's zero value.\<close>

definition portless_world :: world where
  "portless_world =
     \<lparr>files = (\<lambda>name. if name = default_path then Contents portless_json else no_such_file name),
      json_Unmarshal =
        (\<lambda>bytes. if bytes = portless_json
           then Inr \<lparr>fileUser = ''admin'', filePassword = ''secret'', filePort = 0\<rparr>
           else syntax_error)\<rparr>"

text \<open>No config file anywhere (the service has never run).\<close>

definition absent_world :: world where
  "absent_world = \<lparr>files = no_such_file, json_Unmarshal = (\<lambda>bytes. syntax_error)\<rparr>"

text \<open>A default config file that cannot be opened.\<close>

definition denied_world :: world where
  "denied_world =
     \<lparr>files = (\<lambda>name. if name = default_path then Failure ''open'' EACCES else no_such_file name),
      json_Unmarshal = (\<lambda>bytes. syntax_error)\<rparr>"

text \<open>A default config file that is not JSON.\<close>

definition garbled_world :: world where
  "garbled_world =
     \<lparr>files = (\<lambda>name. if name = default_path then Contents ''{not json'' else no_such_file name),
      json_Unmarshal = (\<lambda>bytes. syntax_error)\<rparr>"

definition allOverrides :: ConnectionInfo where
  "allOverrides = \<lparr>User = ''me'', Password = ''pw'', Host = ''10.0.0.5'', Port = ''9999''\<rparr>"

definition userOverride :: ConnectionInfo where
  "userOverride = \<lparr>User = ''me'', Password = '''', Host = '''', Port = ''''\<rparr>"

subsection \<open>Executables\<close>

definition gitDir :: DirEntry where
  "gitDir = \<lparr>Name = ''.git'', IsDir = True\<rparr>"

definition srcDir :: DirEntry where
  "srcDir = \<lparr>Name = ''src'', IsDir = True\<rparr>"

text \<open>\<^verbatim>\<open>rdctl\<close> below a source checkout at \<^verbatim>\<open>/home/u/rd\<close>.\<close>

definition checkout_system :: system where
  "checkout_system =
     \<lparr>LookupEnv = (\<lambda>key. None),
      Executable = Inr [''home'', ''u'', ''rd'', ''resources'', ''linux'', ''bin'', ''rdctl''],
      EvalSymlinks = (\<lambda>p. Inr p),
      ReadDir = (\<lambda>p. if p = [''home'', ''u'', ''rd''] then Inr [srcDir, gitDir] else Inr [])\<rparr>"

text \<open>\<^verbatim>\<open>NODE_ENV=development\<close>, and an executable whose path cannot be found.\<close>

definition marked_system :: system where
  "marked_system =
     \<lparr>LookupEnv = (\<lambda>key. if key = ''NODE_ENV'' then Some ''development'' else None),
      Executable = Inl ENOENT,
      EvalSymlinks = (\<lambda>p. Inl ENOENT),
      ReadDir = (\<lambda>p. Inl EACCES)\<rparr>"

text \<open>
  \<^verbatim>\<open>/repo/private/rdctl\<close>, where \<^verbatim>\<open>/repo\<close> holds \<^verbatim>\<open>.git\<close> and
  \<^verbatim>\<open>/repo/private\<close> cannot be listed.
\<close>

definition unlistable_system :: system where
  "unlistable_system =
     \<lparr>LookupEnv = (\<lambda>key. None),
      Executable = Inr [''repo'', ''private'', ''rdctl''],
      EvalSymlinks = (\<lambda>p. Inr p),
      ReadDir = (\<lambda>p. if p = [''repo'', ''private''] then Inl EACCES else Inr [gitDir])\<rparr>"

text \<open>\<^verbatim>\<open>rdctl\<close> in a packaged build below \<^verbatim>\<open>/opt/rd/dist\<close>.\<close>

definition packaged_system :: system where
  "packaged_system =
     \<lparr>LookupEnv = (\<lambda>key. if key = ''NODE_ENV'' then Some ''production'' else None),
      Executable = Inr [''usr'', ''bin'', ''rdctl''],
      EvalSymlinks = (\<lambda>p. Inr [''opt'', ''rd'', ''dist'', ''linux-unpacked'', ''rdctl'']),
      ReadDir = (\<lambda>p. Inr [srcDir])\<rparr>"

text \<open>The path of the executable cannot be found.\<close>

definition lost_system :: system where
  "lost_system =
     \<lparr>LookupEnv = (\<lambda>key. None),
      Executable = Inl ENOENT,
      EvalSymlinks = (\<lambda>p. Inr p),
      ReadDir = (\<lambda>p. Inr [gitDir])\<rparr>"

text \<open>The path of the executable is a symbolic link that cannot be resolved.\<close>

definition dangling_system :: system where
  "dangling_system =
     \<lparr>LookupEnv = (\<lambda>key. None),
      Executable = Inr [''usr'', ''bin'', ''rdctl''],
      EvalSymlinks = (\<lambda>p. Inl ELOOP),
      ReadDir = (\<lambda>p. Inr [gitDir])\<rparr>"

subsection \<open>Processes\<close>

text \<open>A process that cannot run \<^verbatim>\<open>rdctl paths\<close>, on a given platform.\<close>

definition script_process :: "string \<Rightarrow> process" where
  "script_process p =
     \<lparr>platform = p, cwd = ''/src/rd'', spawnSync_paths = None,
      JSON_parse = (\<lambda>text. None), path_join = (\<lambda>a b. a @ ''/'' @ b)\<rparr>"

text \<open>A process whose \<^verbatim>\<open>rdctl paths\<close> succeeds and prints the given object.\<close>

definition helper_process :: "string \<Rightarrow> pathsData \<Rightarrow> process" where
  "helper_process p d =
     \<lparr>platform = p, cwd = ''/src/rd'',
      spawnSync_paths = Some \<lparr>status = Some 0, stdout = ''(the output of rdctl paths)''\<rparr>,
      JSON_parse = (\<lambda>text. Some d), path_join = (\<lambda>a b. a @ ''/'' @ b)\<rparr>"

text \<open>The helper names a field that \<^verbatim>\<open>UnixPaths\<close> defines with a getter alone.\<close>

definition getter_key_data :: pathsData where
  "getter_key_data = [(''logs'', JString ''/var/log/rd''), (''wslDistro'', JString ''/distro'')]"

text \<open>The helper prints \<^verbatim>\<open>{"__proto__": {}, "wslDistro": ""}\<close>.\<close>

definition proto_key_data :: pathsData where
  "proto_key_data = [(''__proto__'', JObject []), (''wslDistro'', JString '''')]"

text \<open>\<^verbatim>\<open>/bin/wslpath\<close> cannot be examined: \<^verbatim>\<open>Lstat\<close> returns no info and an error.\<close>

definition denied_Lstat :: "string \<Rightarrow> FileInfo option \<times> errno option" where
  "denied_Lstat name = (None, Some EACCES)"

section \<open>Connection resolution\<close>

subsection \<open>What \<^verbatim>\<open>finishConnectionSettings\<close> does in each case\<close>

lemma Itoa_example: "Itoa 6107 = ''6107''"
  by (simp add: Itoa_def digit_def)

lemma Itoa_zero: "Itoa 0 = ''0''"
  by (simp add: Itoa_def digit_def)

lemma after_flags:
  "configPath (setHost (setConfigPath (flags ov p d))) = effectivePath p d"
  "DefaultConfigPath (setHost (setConfigPath (flags ov p d))) = d"
  "connectionSettings (setHost (setConfigPath (flags ov p d))) =
     (if Host ov = '''' then ov\<lparr>Host := ''127.0.0.1''\<rparr> else ov)"
  by (simp_all add: setHost_def setConfigPath_def flags_def effectivePath_def)

lemma finish_read_fails:
  assumes "files w (effectivePath p d) = Failure op e"
  shows "finishConnectionSettings w (flags ov p d) =
     ((effectivePath p d \<noteq> d,
       Some (ReadFileError \<lparr>Op = op, Path = effectivePath p d, Err = e\<rparr>)),
      setHost (setConfigPath (flags ov p d)))"
  using assms by (simp add: finishConnectionSettings_def Let_def after_flags os_ReadFile_def)

lemma finish_parse_fails:
  assumes "files w (effectivePath p d) = Contents bytes" and "json_Unmarshal w bytes = Inl je"
  shows "finishConnectionSettings w (flags ov p d) =
     ((effectivePath p d \<noteq> d, Some (ErrorInConfigFile (effectivePath p d) je)),
      setHost (setConfigPath (flags ov p d)))"
  using assms by (simp add: finishConnectionSettings_def Let_def after_flags os_ReadFile_def)

lemma finish_parsed:
  assumes "files w (effectivePath p d) = Contents bytes"
    and "json_Unmarshal w bytes = Inr settings"
  shows "finishConnectionSettings w (flags ov p d) =
     ((False, None),
      (setHost (setConfigPath (flags ov p d)))
        \<lparr>connectionSettings :=
           mergeSettings settings (if Host ov = '''' then ov\<lparr>Host := ''127.0.0.1''\<rparr> else ov)\<rparr>)"
  using assms by (simp add: finishConnectionSettings_def Let_def after_flags os_ReadFile_def)

lemma insufficient_after:
  "insufficientConnectionInfo (setHost (setConfigPath (flags ov p d))) =
     (Port ov = '''' \<or> User ov = '''' \<or> Password ov = '''')"
  by (simp add: insufficientConnectionInfo_def after_flags)

text \<open>
  The merge of a parsed file copies the user and the password of the file into the
  fields no override set, which leaves a field unset when the file has the empty string.
\<close>

lemma mergeSettings_strings:
  "User (mergeSettings settings c) = (if User c = '''' then fileUser settings else User c)"
  "Password (mergeSettings settings c) =
     (if Password c = '''' then filePassword settings else Password c)"
  "Host (mergeSettings settings c) = Host c"
  by (simp_all add: mergeSettings_def)

lemma mergeSettings_port:
  "Port (mergeSettings settings c) = (if Port c = '''' then Itoa (filePort settings) else Port c)"
  by (simp add: mergeSettings_def)

lemma world_simps:
  "files example_world default_path = Contents example_json"
  "json_Unmarshal example_world example_json =
     Inr \<lparr>fileUser = ''admin'', filePassword = ''secret'', filePort = 6107\<rparr>"
  "files portless_world default_path = Contents portless_json"
  "json_Unmarshal portless_world portless_json =
     Inr \<lparr>fileUser = ''admin'', filePassword = ''secret'', filePort = 0\<rparr>"
  "files absent_world name = Failure ''open'' ENOENT"
  "files denied_world default_path = Failure ''open'' EACCES"
  "files garbled_world default_path = Contents ''{not json''"
  "json_Unmarshal garbled_world bytes = Inl (SyntaxError ''invalid character'')"
  by (simp_all add: example_world_def portless_world_def absent_world_def denied_world_def
      garbled_world_def no_such_file_def syntax_error_def)

lemma effectivePath_simps:
  "effectivePath '''' d = d"
  "p \<noteq> '''' \<Longrightarrow> effectivePath p d = p"
  by (simp_all add: effectivePath_def)

lemma default_path_nonempty: "default_path \<noteq> ''''"
  by (simp add: default_path_def)

subsection \<open>The claims\<close>

text \<open>
  Claim C1, as amended. When the config path is the default one (no \<^verbatim>\<open>--config-path\<close>,
  or the default path itself), the default file cannot be read, and the overrides leave
  one of user, password and port empty, \<^verbatim>\<open>GetConnectionInfo\<close> fails with the error
  of \<^verbatim>\<open>os.ReadFile\<close> itself: the \<^verbatim>\<open>*PathError\<close> for the default path with the
  system's cause, file-not-found when the file does not exist. It does not fail with
  \<^verbatim>\<open>ErrMainProcessNotRunning\<close>.
\<close>

theorem default_unreadable_returns_read_error:
  assumes "files w d = Failure op e"
    and "p = '''' \<or> p = d"
    and "User ov = '''' \<or> Password ov = '''' \<or> Port ov = ''''"
  shows "fst (GetConnectionInfo w (flags ov p d)) =
           Inl (ReadFileError \<lparr>Op = op, Path = d, Err = e\<rparr>)"
proof -
  from assms(2) have here: "effectivePath p d = d"
    by (auto simp: effectivePath_def)
  from assms(1) have unreadable: "files w (effectivePath p d) = Failure op e"
    by (simp add: here)
  show ?thesis
    using assms(3)
    by (auto simp: GetConnectionInfo_def finish_read_fails [OF unreadable] here
        insufficient_after)
qed

theorem default_unreadable_returns_read_error_witness:
  "fst (GetConnectionInfo denied_world (flags userOverride default_path default_path)) =
     Inl (ReadFileError \<lparr>Op = ''open'', Path = default_path, Err = EACCES\<rparr>)"
  using default_unreadable_returns_read_error
    [of denied_world default_path "''open''" EACCES default_path userOverride]
  by (simp add: world_simps userOverride_def)

text \<open>
  Claim C1 as stated fails: with no config file at the default path and no override at
  all, the error is the file-not-found \<^verbatim>\<open>*PathError\<close>, not
  \<^verbatim>\<open>ErrMainProcessNotRunning\<close>.
\<close>

theorem default_absent_is_not_ErrMainProcessNotRunning:
  "fst (GetConnectionInfo absent_world (flags noOverrides '''' default_path)) =
     Inl (ReadFileError \<lparr>Op = ''open'', Path = default_path, Err = ENOENT\<rparr>)
   \<and> fst (GetConnectionInfo absent_world (flags noOverrides '''' default_path)) \<noteq>
     Inl ErrMainProcessNotRunning"
proof -
  have "files absent_world (effectivePath '''' default_path) = Failure ''open'' ENOENT"
    by (simp add: world_simps)
  then show ?thesis
    by (simp add: GetConnectionInfo_def finish_read_fails insufficient_after noOverrides_def
        effectivePath_simps)
qed

text \<open>
  Claim C2, as amended. When the config file is read and is not valid JSON,
  \<^verbatim>\<open>GetConnectionInfo\<close> fails with the parse error (which carries the path) if the
  path is not the default one, or if the overrides leave one of user, password and port
  empty. At the default path with all three overridden it succeeds and returns the
  overrides, with the host defaulted.
\<close>

theorem invalid_json_result:
  assumes "files w (effectivePath p d) = Contents bytes"
    and "json_Unmarshal w bytes = Inl je"
  shows "fst (GetConnectionInfo w (flags ov p d)) =
     (if effectivePath p d \<noteq> d \<or> User ov = '''' \<or> Password ov = '''' \<or> Port ov = ''''
      then Inl (ErrorInConfigFile (effectivePath p d) je)
      else Inr (if Host ov = '''' then ov\<lparr>Host := ''127.0.0.1''\<rparr> else ov))"
  by (auto simp: GetConnectionInfo_def finish_parse_fails [OF assms] insufficient_after
      after_flags)

theorem invalid_json_result_witness:
  "fst (GetConnectionInfo garbled_world (flags userOverride '''' default_path)) =
     Inl (ErrorInConfigFile default_path (SyntaxError ''invalid character''))"
  using invalid_json_result
    [of garbled_world "''''" default_path "''{not json''" "SyntaxError ''invalid character''"
      userOverride]
  by (simp add: world_simps effectivePath_simps userOverride_def)

text \<open>
  Claim C2 as stated fails: an invalid default config file is ignored when the overrides
  supply user, password and port.
\<close>

theorem invalid_json_ignored_at_default:
  "fst (GetConnectionInfo garbled_world (flags allOverrides '''' default_path)) =
     Inr allOverrides"
proof -
  have "files garbled_world (effectivePath '''' default_path) = Contents ''{not json''"
    by (simp add: world_simps effectivePath_simps)
  then show ?thesis
    by (simp add: GetConnectionInfo_def finish_parse_fails world_simps insufficient_after
        after_flags effectivePath_simps allOverrides_def)
qed

text \<open>
  Claim C3, at the input where the code departs from it: a config file with user and
  password and no port (so \<^verbatim>\<open>Port\<close> is 0 after parsing), and no override. The merge
  does not leave the port unset: it stores the string \<^verbatim>\<open>"0"\<close>, and resolution
  succeeds with it.
\<close>

theorem zero_port_becomes_string:
  "fst (GetConnectionInfo portless_world (flags noOverrides '''' default_path)) =
     Inr \<lparr>User = ''admin'', Password = ''secret'', Host = ''127.0.0.1'', Port = ''0''\<rparr>"
proof -
  have "files portless_world (effectivePath '''' default_path) = Contents portless_json"
    by (simp add: world_simps effectivePath_simps)
  then show ?thesis
    by (simp add: GetConnectionInfo_def finish_parsed world_simps mergeSettings_def
        noOverrides_def Itoa_zero)
qed

text \<open>
  Claim C4. Whenever \<^verbatim>\<open>GetConnectionInfo\<close> returns a descriptor, each of host, port,
  user and password that has a non-empty override holds that override, whatever the world
  (the config file and its content) is.
\<close>

theorem override_wins:
  assumes "fst (GetConnectionInfo w (flags ov p d)) = Inr c"
  shows "(Host ov \<noteq> '''' \<longrightarrow> Host c = Host ov) \<and> (Port ov \<noteq> '''' \<longrightarrow> Port c = Port ov)
       \<and> (User ov \<noteq> '''' \<longrightarrow> User c = User ov)
       \<and> (Password ov \<noteq> '''' \<longrightarrow> Password c = Password ov)"
proof (cases "files w (effectivePath p d)")
  case (Failure op e)
  from assms show ?thesis
    by (auto simp: GetConnectionInfo_def finish_read_fails [OF Failure] after_flags
        split: if_splits)
next
  case (Contents bytes)
  show ?thesis
  proof (cases "json_Unmarshal w bytes")
    case (Inl je)
    from assms show ?thesis
      by (auto simp: GetConnectionInfo_def finish_parse_fails [OF Contents Inl] after_flags
          split: if_splits)
  next
    case (Inr settings)
    from assms show ?thesis
      by (auto simp: GetConnectionInfo_def finish_parsed [OF Contents Inr] mergeSettings_def)
  qed
qed

theorem override_wins_witness:
  "fst (GetConnectionInfo example_world (flags allOverrides '''' default_path)) = Inr allOverrides
   \<and> fst (GetConnectionInfo example_world (flags userOverride '''' default_path)) =
       Inr \<lparr>User = ''me'', Password = ''secret'', Host = ''127.0.0.1'', Port = ''6107''\<rparr>"
proof -
  have readable: "files example_world (effectivePath '''' default_path) = Contents example_json"
    by (simp add: world_simps effectivePath_simps)
  have all: "fst (GetConnectionInfo example_world (flags allOverrides '''' default_path)) =
      Inr allOverrides"
    by (simp add: GetConnectionInfo_def finish_parsed [OF readable] world_simps mergeSettings_def
        allOverrides_def)
  have one: "fst (GetConnectionInfo example_world (flags userOverride '''' default_path)) =
      Inr \<lparr>User = ''me'', Password = ''secret'', Host = ''127.0.0.1'', Port = ''6107''\<rparr>"
    by (simp add: GetConnectionInfo_def finish_parsed [OF readable] world_simps mergeSettings_def
        userOverride_def Itoa_example)
  from override_wins [OF all] override_wins [OF one] all one show ?thesis
    by simp
qed

text \<open>
  Claim C5. When the config file that is read parses, has a non-empty user and password
  and a non-zero port, and no override is given, \<^verbatim>\<open>GetConnectionInfo\<close> succeeds with
  the user and password of the file, its port in decimal, and the host
  \<^verbatim>\<open>127.0.0.1\<close>.
\<close>

theorem file_only_resolution:
  assumes "files w (effectivePath p d) = Contents bytes"
    and "json_Unmarshal w bytes = Inr settings"
    and "fileUser settings \<noteq> ''''" and "filePassword settings \<noteq> ''''"
    and "filePort settings \<noteq> 0"
  shows "fst (GetConnectionInfo w (flags noOverrides p d)) =
         Inr \<lparr>User = fileUser settings, Password = filePassword settings,
              Host = ''127.0.0.1'', Port = Itoa (filePort settings)\<rparr>"
  using assms(1,2)
  by (simp add: GetConnectionInfo_def finish_parsed mergeSettings_def noOverrides_def)

theorem file_only_resolution_witness:
  "fst (GetConnectionInfo example_world (flags noOverrides '''' default_path)) =
     Inr \<lparr>User = ''admin'', Password = ''secret'', Host = ''127.0.0.1'', Port = ''6107''\<rparr>"
  using file_only_resolution [of example_world "''''" default_path example_json
      "\<lparr>fileUser = ''admin'', filePassword = ''secret'', filePort = 6107\<rparr>"]
  by (simp add: world_simps effectivePath_simps Itoa_example)

text \<open>
  Claim C6. When \<^verbatim>\<open>--config-path\<close> names a path other than the default one and that
  path cannot be read, \<^verbatim>\<open>GetConnectionInfo\<close> fails with the \<^verbatim>\<open>*PathError\<close> of the
  read, which holds that path, whatever the overrides are; had the same unreadable path
  been the default one, overrides for user, password and port would have made the call
  succeed.
\<close>

theorem user_path_unreadable_fails:
  assumes "p \<noteq> ''''" and "p \<noteq> d" and "files w p = Failure op e"
  shows "fst (GetConnectionInfo w (flags ov p d)) =
           Inl (ReadFileError \<lparr>Op = op, Path = p, Err = e\<rparr>)
       \<and> (User ov \<noteq> '''' \<and> Password ov \<noteq> '''' \<and> Port ov \<noteq> '''' \<longrightarrow>
            fst (GetConnectionInfo w (flags ov '''' p)) =
              Inr (if Host ov = '''' then ov\<lparr>Host := ''127.0.0.1''\<rparr> else ov))"
proof -
  from assms(1) have here: "effectivePath p d = p" and dflt: "effectivePath '''' p = p"
    by (simp_all add: effectivePath_def)
  from assms(3) have given: "files w (effectivePath p d) = Failure op e"
    and as_default: "files w (effectivePath '''' p) = Failure op e"
    by (simp_all add: here dflt)
  show ?thesis
    using assms(2)
    by (simp add: GetConnectionInfo_def finish_read_fails [OF given]
        finish_read_fails [OF as_default] here dflt insufficient_after after_flags)
qed

theorem user_path_unreadable_fails_witness:
  "fst (GetConnectionInfo absent_world (flags allOverrides ''/tmp/mine.json'' default_path)) =
     Inl (ReadFileError \<lparr>Op = ''open'', Path = ''/tmp/mine.json'', Err = ENOENT\<rparr>)
   \<and> fst (GetConnectionInfo absent_world (flags allOverrides '''' ''/tmp/mine.json'')) =
     Inr allOverrides"
  using user_path_unreadable_fails
    [of "''/tmp/mine.json''" default_path absent_world "''open''" ENOENT allOverrides]
  by (simp add: world_simps default_path_def allOverrides_def)


section \<open>The probe for a WSL distribution\<close>

text \<open>
  What \<^verbatim>\<open>isWSLDistro\<close> does for each outcome of \<^verbatim>\<open>os.Lstat\<close>: false when the
  path does not exist, the symlink bit of the mode when there is a file info, and a panic
  when \<^verbatim>\<open>Lstat\<close> fails for another reason.
\<close>

lemma isWSLDistro_cases:
  "os_Lstat ''/bin/wslpath'' = (None, Some ENOENT) \<Longrightarrow> isWSLDistro os_Lstat = Inr False"
  "os_Lstat ''/bin/wslpath'' = (Some fi, None) \<Longrightarrow>
     isWSLDistro os_Lstat = Inr (Mode fi AND ModeSymlink = ModeSymlink)"
  "os_Lstat ''/bin/wslpath'' = (None, Some e) \<Longrightarrow> e \<noteq> ENOENT \<Longrightarrow>
     isWSLDistro os_Lstat = Inl NilPointerDereference"
  by (simp_all add: isWSLDistro_def os_IsNotExist_def)

text \<open>
  Claim C10, at the input where the code departs from it: \<^verbatim>\<open>Lstat\<close> fails with
  permission denied, so the file info is nil and the error is not a does-not-exist error.
  \<^verbatim>\<open>isWSLDistro\<close> does not return a boolean: it panics on \<^verbatim>\<open>fi.Mode()\<close>.
\<close>

theorem isWSLDistro_panics_on_other_error:
  "isWSLDistro denied_Lstat = Inl NilPointerDereference"
  by (simp add: isWSLDistro_def denied_Lstat_def os_IsNotExist_def)

section \<open>Development mode\<close>

declare ancestorWalk.simps [simp del] ancestors.simps [simp del]

text \<open>
  The walk stops at the first ancestor that ends it, with the verdict of that ancestor,
  and returns false, storing nothing, when no ancestor below the root ends it.
\<close>

lemma ancestorWalk_result:
  "ancestorWalk s p =
     (case find (endsWalk s) (ancestors p) of
        None \<Rightarrow> (Inr False, None)
      | Some a \<Rightarrow> (verdictAt s a, storedAt s a))"
proof (induction s p rule: ancestorWalk.induct)
  case (1 s p)
  show ?case
  proof (cases "isRoot (Dir p)")
    case True
    then show ?thesis
      by (subst ancestorWalk.simps, subst ancestors.simps) simp
  next
    case notRoot: False
    show ?thesis
    proof (cases "Base (Dir p) = ''dist''")
      case True
      with notRoot show ?thesis
        by (subst ancestorWalk.simps, subst ancestors.simps)
          (simp add: endsWalk_def verdictAt_def storedAt_def)
    next
      case notDist: False
      show ?thesis
      proof (cases "ReadDir s (Dir p)")
        case (Inl err)
        with notRoot notDist show ?thesis
          by (subst ancestorWalk.simps, subst ancestors.simps)
            (simp add: endsWalk_def verdictAt_def storedAt_def)
      next
        case (Inr dirEntries)
        show ?thesis
        proof (cases "hasGitDir dirEntries")
          case True
          with notRoot notDist Inr show ?thesis
            by (subst ancestorWalk.simps, subst ancestors.simps)
              (simp add: endsWalk_def verdictAt_def storedAt_def)
        next
          case False
          with notDist Inr have goesOn: "\<not> endsWalk s (Dir p)"
            by (simp add: endsWalk_def)
          from notRoot notDist Inr False goesOn "1.IH" [OF notRoot notDist Inr False]
          show ?thesis
            by (subst ancestorWalk.simps, subst ancestors.simps) simp
        qed
      qed
    qed
  qed
qed

lemma ancestorWalk_find:
  "fst (ancestorWalk s p) =
     (case find (endsWalk s) (ancestors p) of None \<Rightarrow> Inr False | Some a \<Rightarrow> verdictAt s a)"
  by (simp add: ancestorWalk_result split: option.splits)

lemma ancestorWalk_stored:
  "snd (ancestorWalk s p) =
     (case find (endsWalk s) (ancestors p) of None \<Rightarrow> None | Some a \<Rightarrow> storedAt s a)"
  by (simp add: ancestorWalk_result split: option.splits)

lemma ancestors_checkout:
  "ancestors [''home'', ''u'', ''rd'', ''resources'', ''linux'', ''bin'', ''rdctl''] =
     [[''home'', ''u'', ''rd'', ''resources'', ''linux'', ''bin''],
      [''home'', ''u'', ''rd'', ''resources'', ''linux''],
      [''home'', ''u'', ''rd'', ''resources''],
      [''home'', ''u'', ''rd''],
      [''home'', ''u''],
      [''home'']]"
  by (simp add: ancestors.simps Dir_def isRoot_def)

lemma ancestors_packaged:
  "ancestors [''opt'', ''rd'', ''dist'', ''linux-unpacked'', ''rdctl''] =
     [[''opt'', ''rd'', ''dist'', ''linux-unpacked''],
      [''opt'', ''rd'', ''dist''],
      [''opt'', ''rd''],
      [''opt'']]"
  by (simp add: ancestors.simps Dir_def isRoot_def)

text \<open>
  Claim C7, as amended. A call with a cached result returns it. A first call returns
  true at once, and caches it, when \<^verbatim>\<open>NODE_ENV\<close> is \<^verbatim>\<open>development\<close>, whatever
  the executable and the file system are. Otherwise it fails, caching nothing, with the
  error of finding the path of the executable, or with the error of resolving that path.
  Otherwise it walks the ancestors of the resolved path from the nearest up to, and
  without, the root, and stops at the first one that is named \<^verbatim>\<open>dist\<close> (false,
  cached), or that cannot be listed (an error, nothing cached), or whose listing has a
  directory \<^verbatim>\<open>.git\<close> (true, cached); it returns false and caches nothing when there
  is no such ancestor.
\<close>

theorem DevMode_result:
  "DevMode s (Some b) = (Inr b, Some b)
   \<and> (LookupEnv s ''NODE_ENV'' = Some ''development'' \<longrightarrow>
        DevMode s None = (Inr True, Some True))
   \<and> (LookupEnv s ''NODE_ENV'' \<noteq> Some ''development'' \<and> Executable s = Inl e \<longrightarrow>
        DevMode s None = (Inl (FailedExecutable e), None))
   \<and> (LookupEnv s ''NODE_ENV'' \<noteq> Some ''development'' \<and> Executable s = Inr rdctlSymlinkPath
        \<and> EvalSymlinks s rdctlSymlinkPath = Inl e' \<longrightarrow>
        DevMode s None = (Inl (FailedResolve rdctlSymlinkPath e'), None))
   \<and> (LookupEnv s ''NODE_ENV'' \<noteq> Some ''development'' \<and> Executable s = Inr rdctlSymlinkPath
        \<and> EvalSymlinks s rdctlSymlinkPath = Inr rdctlPath \<longrightarrow>
      fst (DevMode s None) =
        (case find (endsWalk s) (ancestors rdctlPath) of
           None \<Rightarrow> Inr False
         | Some a \<Rightarrow> verdictAt s a)
      \<and> snd (DevMode s None) =
        (case find (endsWalk s) (ancestors rdctlPath) of
           None \<Rightarrow> None
         | Some a \<Rightarrow> storedAt s a))"
  by (simp add: DevMode_def ancestorWalk_find ancestorWalk_stored)

theorem DevMode_result_witness:
  "DevMode marked_system None = (Inr True, Some True)
   \<and> DevMode checkout_system None = (Inr True, Some True)
   \<and> DevMode packaged_system None = (Inr False, Some False)
   \<and> DevMode lost_system None = (Inl (FailedExecutable ENOENT), None)
   \<and> DevMode dangling_system None = (Inl (FailedResolve [''usr'', ''bin'', ''rdctl''] ELOOP), None)"
proof -
  have marked: "DevMode marked_system None = (Inr True, Some True)"
    using DevMode_result [of marked_system True ENOENT "[]" ENOENT "[]"]
    by (simp add: marked_system_def)
  have lost: "DevMode lost_system None = (Inl (FailedExecutable ENOENT), None)"
    using DevMode_result [of lost_system True ENOENT "[]" ENOENT "[]"]
    by (simp add: lost_system_def)
  have dangling:
    "DevMode dangling_system None = (Inl (FailedResolve [''usr'', ''bin'', ''rdctl''] ELOOP), None)"
    using DevMode_result [of dangling_system True ENOENT "[''usr'', ''bin'', ''rdctl'']" ELOOP "[]"]
    by (simp add: dangling_system_def)
  have "fst (DevMode checkout_system None) = Inr True
      \<and> snd (DevMode checkout_system None) = Some True"
    using DevMode_result [of checkout_system True ENOENT
        "[''home'', ''u'', ''rd'', ''resources'', ''linux'', ''bin'', ''rdctl'']" ENOENT
        "[''home'', ''u'', ''rd'', ''resources'', ''linux'', ''bin'', ''rdctl'']"]
    by (simp add: checkout_system_def ancestors_checkout endsWalk_def verdictAt_def
        storedAt_def Base_def gitDir_def srcDir_def)
  then have checkout: "DevMode checkout_system None = (Inr True, Some True)"
    by (simp add: prod_eq_iff)
  have "fst (DevMode packaged_system None) = Inr False
      \<and> snd (DevMode packaged_system None) = Some False"
    using DevMode_result [of packaged_system True ENOENT "[''usr'', ''bin'', ''rdctl'']" ENOENT
        "[''opt'', ''rd'', ''dist'', ''linux-unpacked'', ''rdctl'']"]
    by (simp add: packaged_system_def ancestors_packaged endsWalk_def verdictAt_def
        storedAt_def Base_def gitDir_def srcDir_def)
  then have packaged: "DevMode packaged_system None = (Inr False, Some False)"
    by (simp add: prod_eq_iff)
  from marked checkout packaged lost dangling show ?thesis
    by simp
qed

text \<open>
  Claim C7 as stated fails: with \<^verbatim>\<open>NODE_ENV\<close> unset and the executable at
  \<^verbatim>\<open>/repo/private/rdctl\<close>, where no ancestor is named \<^verbatim>\<open>dist\<close> and \<^verbatim>\<open>/repo\<close>
  holds \<^verbatim>\<open>.git\<close>, the call does not return true: \<^verbatim>\<open>/repo/private\<close> cannot be
  listed, and the call fails there.
\<close>

theorem DevMode_fails_at_unlistable_ancestor:
  "fst (DevMode unlistable_system None) = Inl (FailedReadDir [''repo'', ''private''] EACCES)
   \<and> ReadDir unlistable_system [''repo''] = Inr [gitDir] \<and> hasGitDir [gitDir]"
  by (simp add: DevMode_def unlistable_system_def ancestorWalk.simps Dir_def isRoot_def
      Base_def gitDir_def)

section \<open>Application paths\<close>

subsection \<open>The assignment while the prototype stays\<close>

lemma getters_no_proto: "map_of (classGetters c) ''__proto__'' = None"
  by (cases c) (simp_all add: UnixPaths_getters_def WindowsPaths_getters_def)

lemma fields_no_proto: "map_of (classFields c) ''__proto__'' = None"
  by (cases c) (simp_all add: UnixPaths_fields_def WindowsPaths_fields_def)

lemma fields_no_getter: "map_of (classGetters c) k = Some msg \<Longrightarrow> map_of (classFields c) k = None"
  by (cases c)
    (auto simp: UnixPaths_fields_def WindowsPaths_fields_def UnixPaths_getters_def
      WindowsPaths_getters_def split: if_splits)

lemma keepsPrototype_Cons:
  "keepsPrototype ((k, v) # rest) =
     ((k \<noteq> ''__proto__'' \<or> \<not> isObjectOrNull v) \<and> keepsPrototype rest)"
  by (simp add: keepsPrototype_def)

lemma firstGetterKey_Cons:
  "firstGetterKey c ((k, v) # rest) =
     (if map_of (classGetters c) k \<noteq> None then Some k else firstGetterKey c rest)"
  by (simp add: firstGetterKey_def)

lemma firstGetterKey_Nil: "firstGetterKey c [] = None"
  by (simp add: firstGetterKey_def)

lemma firstGetterKey_None:
  "firstGetterKey c d = None \<Longrightarrow> kv \<in> set d \<Longrightarrow> map_of (classGetters c) (fst kv) = None"
  by (cases kv) (auto simp: firstGetterKey_def find_None_iff)

lemma overlay_untouched: "m k = None \<Longrightarrow> k \<notin> fst ` set d \<Longrightarrow> overlay d m k = None"
  by (induction d arbitrary: m) auto

lemma Object_assign_class:
  assumes "keepsPrototype d"
    and "proto this = ClassPrototype c"
    and "own this ''__proto__'' = None"
    and "\<forall>k. map_of (classGetters c) k \<noteq> None \<longrightarrow> own this k = None"
  shows "Object_assign this d =
     (case firstGetterKey c d of
        Some k \<Rightarrow> Inl (TypeError k)
      | None \<Rightarrow> Inr \<lparr>own = overlay d (own this), proto = ClassPrototype c\<rparr>)"
  using assms
proof (induction d arbitrary: this)
  case Nil
  then show ?case
    by (simp add: firstGetterKey_Nil)
next
  case (Cons kv rest)
  obtain k v where kv: "kv = (k, v)"
    by (cases kv)
  from Cons.prems(1) have harmless: "k \<noteq> ''__proto__'' \<or> \<not> isObjectOrNull v"
    and rest: "keepsPrototype rest"
    by (simp_all add: kv keepsPrototype_Cons)
  show ?case
  proof (cases "map_of (classGetters c) k")
    case (Some msg)
    with Cons.prems(4) have "own this k = None"
      by simp
    with Some Cons.prems(2) show ?thesis
      by (simp add: kv assignProperty_def firstGetterKey_Cons)
  next
    case None
    show ?thesis
    proof (cases "k = ''__proto__''")
      case True
      with harmless have same: "setPrototype this v = this"
        by (simp add: setPrototype_def)
      from True None Cons.prems(2,3) same
      have step: "assignProperty this k v = Inr this"
        by (simp add: assignProperty_def)
      from Cons.IH [OF rest Cons.prems(2) Cons.prems(3) Cons.prems(4)] step True None
      show ?thesis
        by (simp add: kv firstGetterKey_Cons split: option.splits)
    next
      case False
      with None Cons.prems(2) have step: "assignProperty this k v = Inr (defineOwn this k v)"
        by (simp add: assignProperty_def split: option.splits)
      have p: "proto (defineOwn this k v) = ClassPrototype c"
        using Cons.prems(2) by (simp add: defineOwn_def)
      have o: "own (defineOwn this k v) ''__proto__'' = None"
        using Cons.prems(3) False by (simp add: defineOwn_def)
      have g: "\<forall>k'. map_of (classGetters c) k' \<noteq> None \<longrightarrow> own (defineOwn this k v) k' = None"
        using None Cons.prems(4) by (auto simp: defineOwn_def)
      from Cons.IH [OF rest p o g] step False None show ?thesis
        by (simp add: kv firstGetterKey_Cons defineOwn_def split: option.splits)
    qed
  qed
qed

lemma new_Paths_result:
  assumes "keepsPrototype d"
  shows "new_Paths c d =
     (case firstGetterKey c d of
        Some k \<Rightarrow> Inl (TypeError k)
      | None \<Rightarrow> Inr \<lparr>own = overlay d (map_of (classFields c)), proto = ClassPrototype c\<rparr>)"
proof -
  let ?obj = "\<lparr>own = map_of (classFields c), proto = ClassPrototype c\<rparr>"
  have p: "proto ?obj = ClassPrototype c" and o: "own ?obj ''__proto__'' = None"
    by (simp_all add: fields_no_proto)
  have g: "\<forall>k. map_of (classGetters c) k \<noteq> None \<longrightarrow> own ?obj k = None"
    using fields_no_getter [of c] by auto
  from Object_assign_class [OF assms p o g] show ?thesis
    by (simp add: new_Paths_def split: option.splits)
qed

text \<open>An assignment never gives an object the prototype of the other class.\<close>

lemma assignProperty_proto:
  "assignProperty this k v = Inr this' \<Longrightarrow>
     proto this' = proto this \<or> (\<exists>p. proto this' = Replaced p)"
  by (auto simp: assignProperty_def setPrototype_def defineOwn_def
      split: option.splits prototype.splits if_splits)

lemma Object_assign_proto:
  "Object_assign this d = Inr ps \<Longrightarrow> proto ps = proto this \<or> (\<exists>p. proto ps = Replaced p)"
proof (induction d arbitrary: this)
  case Nil
  then show ?case by simp
next
  case (Cons kv rest)
  obtain k v where kv: "kv = (k, v)"
    by (cases kv)
  from Cons.prems obtain this' where step: "assignProperty this k v = Inr this'"
    and more: "Object_assign this' rest = Inr ps"
    by (auto simp: kv split: sum.splits)
  from Cons.IH [OF more] assignProperty_proto [OF step] show ?case
    by auto
qed

lemma new_Paths_proto: "new_Paths c d = Inr ps \<Longrightarrow> proto ps = ClassPrototype c' \<Longrightarrow> c' = c"
  using Object_assign_proto [of "\<lparr>own = map_of (classFields c), proto = ClassPrototype c\<rparr>" d ps]
  by (auto simp: new_Paths_def)

lemma script_process_simps:
  "platform (script_process p) = p"
  "loadPathsData (script_process p) =
     [(''resources'', JString ''/src/rd/resources''), (''logs'', JString ''/src/rd/script_logs'')]"
  "platform (helper_process p d) = p"
  "loadPathsData (helper_process p d) = d"
  by (simp_all add: script_process_def helper_process_def loadPathsData_def defaultPathsData_def)

lemma keepsPrototype_examples:
  "keepsPrototype [(''resources'', JString a), (''logs'', JString b)]"
  "keepsPrototype getter_key_data"
  by (simp_all add: keepsPrototype_def getter_key_data_def)

lemma firstGetterKey_examples:
  "firstGetterKey c [(''resources'', JString a), (''logs'', JString b)] = None"
  "firstGetterKey Unix getter_key_data = Some ''wslDistro''"
  "firstGetterKey Windows getter_key_data = None"
  by (cases c; simp add: firstGetterKey_def getter_key_data_def UnixPaths_getters_def
      WindowsPaths_getters_def)+

subsection \<open>The claims\<close>

text \<open>
  Claim C8, as amended. \<^verbatim>\<open>getPaths\<close> picks the class to construct by the platform
  alone: on \<^verbatim>\<open>darwin\<close> and \<^verbatim>\<open>linux\<close> it returns what
  \<^verbatim>\<open>new UnixPaths(pathsData)\<close> gives, on \<^verbatim>\<open>win32\<close> what
  \<^verbatim>\<open>new WindowsPaths(pathsData)\<close> gives, and on every other platform it throws the
  error that names the platform as not supported and returns no object. When
  \<^verbatim>\<open>pathsData\<close> has no key \<^verbatim>\<open>__proto__\<close> with an object, an array or null, the
  constructor throws a TypeError for the first key of \<^verbatim>\<open>pathsData\<close> that its class
  defines with a getter alone, and without such a key it returns an object of its class:
  the defaults of the fields with the entries of \<^verbatim>\<open>pathsData\<close> over them. An object
  that \<^verbatim>\<open>getPaths\<close> returns has the prototype of \<^verbatim>\<open>UnixPaths\<close> only on
  \<^verbatim>\<open>darwin\<close> and \<^verbatim>\<open>linux\<close>, and that of \<^verbatim>\<open>WindowsPaths\<close> only on \<^verbatim>\<open>win32\<close>.
\<close>

theorem getPaths_selects_class:
  "(platform pr = ''darwin'' \<or> platform pr = ''linux'' \<longrightarrow>
      getPaths pr = new_UnixPaths (loadPathsData pr))
   \<and> (platform pr = ''win32'' \<longrightarrow> getPaths pr = new_WindowsPaths (loadPathsData pr))
   \<and> (platform pr \<noteq> ''darwin'' \<and> platform pr \<noteq> ''linux'' \<and> platform pr \<noteq> ''win32'' \<longrightarrow>
        getPaths pr = Inl (unsupported (platform pr)))
   \<and> (keepsPrototype d \<longrightarrow>
        new_UnixPaths d =
          (case firstGetterKey Unix d of
             Some k \<Rightarrow> Inl (TypeError k)
           | None \<Rightarrow>
               Inr \<lparr>own = overlay d (map_of UnixPaths_fields), proto = ClassPrototype Unix\<rparr>))
   \<and> (keepsPrototype d \<longrightarrow>
        new_WindowsPaths d =
          (case firstGetterKey Windows d of
             Some k \<Rightarrow> Inl (TypeError k)
           | None \<Rightarrow>
               Inr \<lparr>own = overlay d (map_of WindowsPaths_fields),
                    proto = ClassPrototype Windows\<rparr>))
   \<and> (getPaths pr = Inr ps \<and> proto ps = ClassPrototype Unix \<longrightarrow>
        platform pr = ''darwin'' \<or> platform pr = ''linux'')
   \<and> (getPaths pr = Inr ps \<and> proto ps = ClassPrototype Windows \<longrightarrow> platform pr = ''win32'')"
proof -
  have unix: "platform pr = ''darwin'' \<or> platform pr = ''linux'' \<Longrightarrow>
      getPaths pr = new_UnixPaths (loadPathsData pr)"
    by (auto simp: getPaths_def)
  have windows: "platform pr = ''win32'' \<Longrightarrow> getPaths pr = new_WindowsPaths (loadPathsData pr)"
    by (simp add: getPaths_def)
  have other: "platform pr \<noteq> ''darwin'' \<Longrightarrow> platform pr \<noteq> ''linux'' \<Longrightarrow>
      platform pr \<noteq> ''win32'' \<Longrightarrow> getPaths pr = Inl (unsupported (platform pr))"
    by (simp add: getPaths_def)
  have built_unix: "keepsPrototype d \<Longrightarrow>
      new_UnixPaths d =
        (case firstGetterKey Unix d of
           Some k \<Rightarrow> Inl (TypeError k)
         | None \<Rightarrow>
             Inr \<lparr>own = overlay d (map_of UnixPaths_fields), proto = ClassPrototype Unix\<rparr>)"
    using new_Paths_result [of d Unix] by (simp add: new_UnixPaths_def split: option.splits)
  have built_windows: "keepsPrototype d \<Longrightarrow>
      new_WindowsPaths d =
        (case firstGetterKey Windows d of
           Some k \<Rightarrow> Inl (TypeError k)
         | None \<Rightarrow>
             Inr \<lparr>own = overlay d (map_of WindowsPaths_fields),
                  proto = ClassPrototype Windows\<rparr>)"
    using new_Paths_result [of d Windows]
    by (simp add: new_WindowsPaths_def split: option.splits)
  have only_unix: "getPaths pr = Inr ps \<Longrightarrow> proto ps = ClassPrototype Unix \<Longrightarrow>
      platform pr = ''darwin'' \<or> platform pr = ''linux''"
    using new_Paths_proto [of Windows "loadPathsData pr" ps Unix]
    by (auto simp: getPaths_def new_WindowsPaths_def split: if_splits)
  have only_windows: "getPaths pr = Inr ps \<Longrightarrow> proto ps = ClassPrototype Windows \<Longrightarrow>
      platform pr = ''win32''"
    using new_Paths_proto [of Unix "loadPathsData pr" ps Windows]
    by (auto simp: getPaths_def new_UnixPaths_def split: if_splits)
  from unix windows other built_unix built_windows only_unix only_windows
  show ?thesis
    by blast
qed

theorem getPaths_selects_class_witness:
  "getPaths (script_process ''darwin'') =
     Inr \<lparr>own = overlay [(''resources'', JString ''/src/rd/resources''),
                         (''logs'', JString ''/src/rd/script_logs'')] (map_of UnixPaths_fields),
          proto = ClassPrototype Unix\<rparr>
   \<and> getPaths (script_process ''win32'') =
     Inr \<lparr>own = overlay [(''resources'', JString ''/src/rd/resources''),
                         (''logs'', JString ''/src/rd/script_logs'')] (map_of WindowsPaths_fields),
          proto = ClassPrototype Windows\<rparr>
   \<and> getPaths (helper_process ''win32'' getter_key_data) =
     Inr \<lparr>own = overlay getter_key_data (map_of WindowsPaths_fields),
          proto = ClassPrototype Windows\<rparr>
   \<and> getPaths (script_process ''freebsd'') =
       Inl (Error (''Platform '' @ [CHR 0x22] @ ''freebsd'' @ [CHR 0x22] @ '' is not supported.''))"
  using getPaths_selects_class [of "script_process ''darwin''"
      "[(''resources'', JString ''/src/rd/resources''), (''logs'', JString ''/src/rd/script_logs'')]"]
    getPaths_selects_class [of "script_process ''win32''"
      "[(''resources'', JString ''/src/rd/resources''), (''logs'', JString ''/src/rd/script_logs'')]"]
    getPaths_selects_class [of "helper_process ''win32'' getter_key_data" getter_key_data]
    getPaths_selects_class [of "script_process ''freebsd''" "[]"]
  by (simp add: script_process_simps keepsPrototype_examples firstGetterKey_examples
      unsupported_def)

text \<open>
  Claim C8 as stated fails: on \<^verbatim>\<open>linux\<close>, when \<^verbatim>\<open>rdctl paths\<close> prints an object
  with the key \<^verbatim>\<open>wslDistro\<close>, \<^verbatim>\<open>getPaths\<close> yields no \<^verbatim>\<open>UnixPaths\<close>: the
  constructor throws a TypeError.
\<close>

theorem getPaths_linux_getter_key_throws:
  "getPaths (helper_process ''linux'' getter_key_data) = Inl (TypeError ''wslDistro'')"
  by (simp add: getPaths_def script_process_simps new_UnixPaths_def new_Paths_def
      getter_key_data_def assignProperty_def defineOwn_def UnixPaths_fields_def
      UnixPaths_getters_def)

text \<open>
  Claim C9, as amended. Let \<^verbatim>\<open>pathsData\<close> have no key \<^verbatim>\<open>__proto__\<close> with an
  object, an array or null. Then on every object that \<^verbatim>\<open>getPaths\<close> returns on
  \<^verbatim>\<open>darwin\<close> or \<^verbatim>\<open>linux\<close>, reading \<^verbatim>\<open>wslDistro\<close> or \<^verbatim>\<open>wslDistroData\<close> throws
  an error saying the field is not available for Unix, and on every one it returns on
  \<^verbatim>\<open>win32\<close>, reading \<^verbatim>\<open>lima\<close>, \<^verbatim>\<open>integration\<close>, \<^verbatim>\<open>oldIntegration\<close>,
  \<^verbatim>\<open>deploymentProfileSystem\<close> or \<^verbatim>\<open>deploymentProfileUser\<close> throws the error of
  its getter. No such read returns a value.
\<close>

theorem unavailable_fields_throw:
  assumes "getPaths pr = Inr ps" and "keepsPrototype (loadPathsData pr)"
  shows "(platform pr = ''darwin'' \<or> platform pr = ''linux'' \<longrightarrow>
            read_field ps wslDistro = Inl (Error ''wslDistro not available for Unix'')
          \<and> read_field ps wslDistroData = Inl (Error ''wslDistroData not available for Unix''))
       \<and> (platform pr = ''win32'' \<longrightarrow>
            read_field ps lima = Inl (Error ''lima not available for Windows'')
          \<and> read_field ps integration =
              Inl (Error ''Internal error: integration path not available for Windows'')
          \<and> read_field ps oldIntegration =
              Inl (Error ''Internal error: oldIntegration path not available for Windows'')
          \<and> read_field ps deploymentProfileSystem =
              Inl (Error ''Internal error: Windows profiles will be read from Registry'')
          \<and> read_field ps deploymentProfileUser =
              Inl (Error ''Internal error: Windows profiles will be read from Registry''))"
proof -
  define d where "d = loadPathsData pr"
  have built: "ps = \<lparr>own = overlay d (map_of (classFields c)), proto = ClassPrototype c\<rparr>
      \<and> firstGetterKey c d = None" if "new_Paths c d = Inr ps" for c
    using that new_Paths_result [of d c] assms(2)
    by (auto simp: d_def split: option.splits)
  have thrown: "read_field ps f = Inl (Error msg)"
    if "new_Paths c d = Inr ps" and "map_of (classGetters c) (fieldName f) = Some msg" for c f msg
  proof -
    from built [OF that(1)]
    have ps: "ps = \<lparr>own = overlay d (map_of (classFields c)), proto = ClassPrototype c\<rparr>"
      and none: "firstGetterKey c d = None"
      by simp_all
    have "fieldName f \<notin> fst ` set d"
      using firstGetterKey_None [OF none] that(2) by force
    with fields_no_getter [OF that(2)]
    have "overlay d (map_of (classFields c)) (fieldName f) = None"
      by (rule overlay_untouched)
    with that(2) show ?thesis
      by (simp add: read_field_def ps)
  qed
  have unix: "new_Paths Unix d = Inr ps" if "platform pr = ''darwin'' \<or> platform pr = ''linux''"
    using that assms(1) by (auto simp: getPaths_def new_UnixPaths_def d_def)
  have windows: "new_Paths Windows d = Inr ps" if "platform pr = ''win32''"
    using that assms(1) by (auto simp: getPaths_def new_WindowsPaths_def d_def)
  show ?thesis
    using thrown [OF unix, of wslDistro] thrown [OF unix, of wslDistroData]
      thrown [OF windows, of lima] thrown [OF windows, of integration]
      thrown [OF windows, of oldIntegration] thrown [OF windows, of deploymentProfileSystem]
      thrown [OF windows, of deploymentProfileUser]
    by (simp add: UnixPaths_getters_def WindowsPaths_getters_def)
qed

theorem unavailable_fields_throw_witness:
  "(\<exists>ps. getPaths (script_process ''linux'') = Inr ps
        \<and> read_field ps wslDistro = Inl (Error ''wslDistro not available for Unix'')
        \<and> read_field ps logs = Inr (Some (JString ''/src/rd/script_logs'')))
   \<and> (\<exists>ps. getPaths (helper_process ''win32'' getter_key_data) = Inr ps
        \<and> read_field ps lima = Inl (Error ''lima not available for Windows'')
        \<and> read_field ps wslDistro = Inr (Some (JString ''/distro'')))"
proof -
  obtain u where u: "getPaths (script_process ''linux'') = Inr u"
    and ulogs: "read_field u logs = Inr (Some (JString ''/src/rd/script_logs''))"
    by (simp add: getPaths_def script_process_simps new_UnixPaths_def new_Paths_def
        assignProperty_def defineOwn_def UnixPaths_fields_def UnixPaths_getters_def
        read_field_def)
  obtain v where v: "getPaths (helper_process ''win32'' getter_key_data) = Inr v"
    and vwsl: "read_field v wslDistro = Inr (Some (JString ''/distro''))"
    by (simp add: getPaths_def script_process_simps new_WindowsPaths_def new_Paths_def
        getter_key_data_def assignProperty_def defineOwn_def WindowsPaths_fields_def
        WindowsPaths_getters_def read_field_def)
  from unavailable_fields_throw [OF u] unavailable_fields_throw [OF v] u v ulogs vwsl
  show ?thesis
    by (simp add: script_process_simps keepsPrototype_examples)
qed

text \<open>
  Claim C9 as stated fails: on \<^verbatim>\<open>linux\<close>, when \<^verbatim>\<open>rdctl paths\<close> prints
  \<^verbatim>\<open>{"__proto__": {}, "wslDistro": ""}\<close>, the assignment of \<^verbatim>\<open>__proto__\<close> takes
  the getters off the object that \<^verbatim>\<open>getPaths\<close> returns, and reading
  \<^verbatim>\<open>wslDistro\<close> from it returns the empty string.
\<close>

theorem replaced_prototype_reads_string:
  "getPaths (helper_process ''linux'' proto_key_data) =
     Inr \<lparr>own = (map_of UnixPaths_fields)(''wslDistro'' \<mapsto> JString ''''),
          proto = Replaced (JObject [])\<rparr>
   \<and> read_field \<lparr>own = (map_of UnixPaths_fields)(''wslDistro'' \<mapsto> JString ''''),
                 proto = Replaced (JObject [])\<rparr> wslDistro = Inr (Some (JString ''''))"
  by (simp add: getPaths_def script_process_simps new_UnixPaths_def new_Paths_def
      proto_key_data_def assignProperty_def defineOwn_def setPrototype_def
      UnixPaths_getters_def read_field_def UnixPaths_fields_def)

end
